theory Spec2Isabelle
  imports Main "HOL-Library.Word"
begin

unbundle bit_operations_syntax

section \<open>Bytes, slices and the panics of Go\<close>

type_synonym byte = "8 word"
type_synonym uint16 = "16 word"

text \<open>
  A Go byte slice is a list of bytes. Reading past its end does not return a value:
  the runtime panics. Every read of the model that Go bounds-checks returns a sum,
  \<open>Inl\<close> the panic.
\<close>

datatype panic = IndexOutOfRange | SliceBoundsOutOfRange

definition go_index :: "byte list \<Rightarrow> nat \<Rightarrow> panic + byte" where
  \<comment> \<open>\<open>b[i]\<close>\<close>
  "go_index b i = (if i < length b then Inr (b ! i) else Inl IndexOutOfRange)"

definition go_slice_from :: "byte list \<Rightarrow> nat \<Rightarrow> panic + byte list" where
  \<comment> \<open>\<open>b[i:]\<close>\<close>
  "go_slice_from b i = (if i \<le> length b then Inr (drop i b) else Inl SliceBoundsOutOfRange)"

section \<open>The wire codec (package binary, little endian)\<close>

text \<open>
  Modelled from the spec: \<open>binary.Marshal\<close>, \<open>binary.Unmarshal\<close> and
  \<open>usermem.ByteOrder\<close> are not under src/. Section 4.1 and section 6 of the spec give
  the codec as a pure transform in little-endian byte order, fields in declaration order.
\<close>

definition le_uint16 :: "byte \<Rightarrow> byte \<Rightarrow> uint16" where
  "le_uint16 lo hi = ucast lo OR push_bit 8 (ucast hi)"

definition le_bytes16 :: "uint16 \<Rightarrow> byte list" where
  "le_bytes16 w = [ucast w, ucast (drop_bit 8 w)]"

text \<open>
  Modelled from the spec: \<open>linux.XTTCP\<close> and \<open>linux.SizeOfXTTCP\<close> are not under src/.
  Section 6 of the spec lists the four 16-bit port bounds in this order, followed by the
  option, flag-mask, flag-compare and inverse-flags fields; these four are one byte each in
  the kernel ABI the block is compatible with, which makes the logical size 12 bytes.
\<close>

record XTTCP =
  SourcePortStart :: uint16
  SourcePortEnd :: uint16
  DestinationPortStart :: uint16
  DestinationPortEnd :: uint16
  Option :: byte
  FlagMask :: byte
  FlagCompare :: byte
  InverseFlags :: byte

definition SizeOfXTTCP :: nat where
  "SizeOfXTTCP = 12"

definition Marshal_XTTCP :: "byte list \<Rightarrow> XTTCP \<Rightarrow> byte list" where
  \<comment> \<open>\<open>binary.Marshal(buf, usermem.ByteOrder, xttcp)\<close>: appends the encoding to \<open>buf\<close>\<close>
  "Marshal_XTTCP buf x =
     buf @ le_bytes16 (SourcePortStart x) @ le_bytes16 (SourcePortEnd x)
         @ le_bytes16 (DestinationPortStart x) @ le_bytes16 (DestinationPortEnd x)
         @ [Option x, FlagMask x, FlagCompare x, InverseFlags x]"

definition Unmarshal_XTTCP :: "byte list \<Rightarrow> XTTCP" where
  \<comment> \<open>\<open>binary.Unmarshal(buf, usermem.ByteOrder, &matchData)\<close>, called on exactly
      \<open>SizeOfXTTCP\<close> bytes\<close>
  "Unmarshal_XTTCP b =
     \<lparr> SourcePortStart = le_uint16 (b ! 0) (b ! 1),
       SourcePortEnd = le_uint16 (b ! 2) (b ! 3),
       DestinationPortStart = le_uint16 (b ! 4) (b ! 5),
       DestinationPortEnd = le_uint16 (b ! 6) (b ! 7),
       Option = b ! 8,
       FlagMask = b ! 9,
       FlagCompare = b ! 10,
       InverseFlags = b ! 11 \<rparr>"

section \<open>The header package\<close>

text \<open>
  Package \<open>gvisor.dev/gvisor/pkg/tcpip/header\<close> is not under src/. The matcher uses three
  of its constants and five of its accessors; they are taken as a parameter, a record of
  the package's members, so that what is proved of the matcher holds for whatever the
  package computes. Protocol numbers are 32-bit (\<open>tcpip.TransportProtocolNumber\<close>),
  \<open>HeaderLength\<close> returns a \<open>uint8\<close>, the ports and the fragment offset a \<open>uint16\<close>.
  An accessor reads a byte slice and may panic.
\<close>

type_synonym TransportProtocolNumber = "32 word"

record header_pkg =
  TCPProtocolNumber :: TransportProtocolNumber
  IPv4MinimumSize :: nat
  TCPMinimumSize :: nat
  TransportProtocol :: "byte list \<Rightarrow> panic + TransportProtocolNumber"
  FragmentOffset :: "byte list \<Rightarrow> panic + uint16"
  HeaderLength :: "byte list \<Rightarrow> panic + byte"
  SourcePort :: "byte list \<Rightarrow> panic + uint16"
  DestinationPort :: "byte list \<Rightarrow> panic + uint16"

section \<open>The TCP matcher and its marshaler\<close>

record TCPMatcher =
  sourcePortStart :: uint16
  sourcePortEnd :: uint16
  destinationPortStart :: uint16
  destinationPortEnd :: uint16

text \<open>
  \<open>stack.IPHeaderFilter\<close> is not under src/; \<open>unmarshal\<close> reads its \<open>Protocol\<close> field only.
\<close>

record IPHeaderFilter =
  Protocol :: TransportProtocolNumber

datatype unmarshal_error =
    InsufficientSize nat    \<comment> \<open>"buf has insufficient size for TCP match: %d"\<close>
  | UnsupportedFlags        \<comment> \<open>"unsupported TCP matcher flags set"\<close>
  | ProtocolMismatch        \<comment> \<open>"TCP matching is only valid for protocol %d."\<close>

definition unmarshal ::
  "header_pkg \<Rightarrow> byte list \<Rightarrow> IPHeaderFilter \<Rightarrow> unmarshal_error + TCPMatcher" where
  "unmarshal H buf ipfilter =
     (if length buf < SizeOfXTTCP then Inl (InsufficientSize (length buf))
      else
        let matchData = Unmarshal_XTTCP (take SizeOfXTTCP buf) in
        if Option matchData \<noteq> 0 \<or> FlagMask matchData \<noteq> 0 \<or>
           FlagCompare matchData \<noteq> 0 \<or> InverseFlags matchData \<noteq> 0
        then Inl UnsupportedFlags
        else if Protocol ipfilter \<noteq> TCPProtocolNumber H
        then Inl ProtocolMismatch
        else Inr \<lparr> sourcePortStart = SourcePortStart matchData,
                   sourcePortEnd = SourcePortEnd matchData,
                   destinationPortStart = DestinationPortStart matchData,
                   destinationPortEnd = DestinationPortEnd matchData \<rparr>)"

text \<open>
  Modelled from the spec: \<open>marshalEntryMatch\<close>, \<open>linux.XTEntryMatch\<close>,
  \<open>linux.SizeOfXTEntryMatch\<close> and \<open>binary.AlignUp\<close> are not under src/. Section 4.3 of
  the spec gives the output of marshal as a generic match-header carrying the matcher's name
  and the total length, followed by the wire match block, followed by the padding that
  reaches the ABI's total size; section 6 adds that the match block follows the header
  immediately. The header is that of the kernel ABI: a 16-bit total length, a name of 29
  bytes filled with zeros and a revision byte, 32 bytes in all, and the total is a multiple
  of 8.
\<close>

definition SizeOfXTEntryMatch :: nat where
  "SizeOfXTEntryMatch = 32"

definition AlignUp :: "nat \<Rightarrow> nat \<Rightarrow> nat" where
  "AlignUp n k = ((n + k - 1) div k) * k"

definition name_bytes :: "string \<Rightarrow> byte list" where
  \<comment> \<open>\<open>copy(matcher.Name[:], name)\<close> into the zeroed array of 29 bytes\<close>
  "name_bytes name =
     (let nm = take 29 (map (\<lambda>c. of_nat (of_char c)) name)
      in nm @ replicate (29 - length nm) 0)"

definition marshalEntryMatch :: "string \<Rightarrow> byte list \<Rightarrow> byte list" where
  "marshalEntryMatch name data =
     (let size = AlignUp (SizeOfXTEntryMatch + length data) 8;
          buf = le_bytes16 (of_nat size) @ name_bytes name @ [0] @ data
      in buf @ replicate (size - length buf) 0)"

definition matcherNameTCP :: string where
  "matcherNameTCP = ''tcp''"

definition marshal :: "TCPMatcher \<Rightarrow> byte list" where
  \<comment> \<open>the type assertion \<open>mr.(*TCPMatcher)\<close> is the type of the argument\<close>
  "marshal matcher =
     (let xttcp = \<lparr> SourcePortStart = sourcePortStart matcher,
                     SourcePortEnd = sourcePortEnd matcher,
                     DestinationPortStart = destinationPortStart matcher,
                     DestinationPortEnd = destinationPortEnd matcher,
                     Option = 0, FlagMask = 0, FlagCompare = 0, InverseFlags = 0 \<rparr>;
          buf = []
      in marshalEntryMatch matcherNameTCP (Marshal_XTTCP buf xttcp))"

section \<open>Packets and hooks\<close>

text \<open>
  \<open>stack.Hook\<close> and \<open>stack.PacketBuffer\<close> are not under src/. The hooks are the five
  interception points of the spec. Of a packet buffer the matcher reads \<open>Data\<close>,
  \<open>NetworkHeader\<close> and \<open>TransportHeader\<close>; a header is a byte slice that may be
  \<open>nil\<close>, which is \<open>None\<close>, and \<open>Data\<close> is modelled by the bytes it holds.
\<close>

datatype Hook = Prerouting | Input | Forward | Output | Postrouting

record PacketBuffer =
  Data :: "byte list"
  NetworkHeader :: "byte list option"
  TransportHeader :: "byte list option"

definition view_bytes :: "byte list option \<Rightarrow> byte list" where
  \<comment> \<open>the bytes of a slice; a \<open>nil\<close> slice has none\<close>
  "view_bytes v = (case v of None \<Rightarrow> [] | Some b \<Rightarrow> b)"

text \<open>
  Modelled from the spec: \<open>PullUp\<close> of \<open>pkt.Data\<close> is not under src/. Section 6 of the
  spec: it makes \<open>count\<close> contiguous bytes available from the front of the remaining
  packet data and returns absence if the data is too short.
\<close>

definition PullUp :: "byte list \<Rightarrow> nat \<Rightarrow> byte list option" where
  "PullUp data count = (if count \<le> length data then Some (take count data) else None)"

section \<open>Match\<close>

text \<open>
  \<open>Match\<close> is given in three definitions, in the order of its source. \<open>Match_tcpHeader\<close>
  is the block that finds the TCP header (\<open>var tcpHeader\<close> up to the port checks); its two
  early returns \<open>false, true\<close> are the value \<open>None\<close>. \<open>Match_ports\<close> is the two port
  checks and the final return. The packet is passed by value, so the assignment to
  \<open>pkt.NetworkHeader\<close> at the pre-routing hook changes a copy nothing reads afterwards.
\<close>

definition Match_tcpHeader :: "header_pkg \<Rightarrow> Hook \<Rightarrow> PacketBuffer \<Rightarrow> panic + byte list option" where
  "Match_tcpHeader H hook pkt =
     (case TransportHeader pkt of
        Some th \<Rightarrow> Inr (Some th)
      | None \<Rightarrow>
          (case (if hook = Prerouting
                 then (case PullUp (Data pkt) (IPv4MinimumSize H) of
                         None \<Rightarrow> Inr None
                       | Some hdr \<Rightarrow>
                           (case HeaderLength H hdr of
                              Inl p \<Rightarrow> Inl p
                            | Inr l \<Rightarrow> Inr (Some (unat l))))
                 else Inr (Some 0)) of
             Inl p \<Rightarrow> Inl p
           | Inr None \<Rightarrow> Inr None
           | Inr (Some len) \<Rightarrow>
               (case PullUp (Data pkt) (len + TCPMinimumSize H) of
                  None \<Rightarrow> Inr None
                | Some hdr \<Rightarrow>
                    (case go_slice_from hdr len of
                       Inl p \<Rightarrow> Inl p
                     | Inr t \<Rightarrow> Inr (Some t)))))"

definition Match_ports :: "header_pkg \<Rightarrow> TCPMatcher \<Rightarrow> byte list \<Rightarrow> panic + bool \<times> bool" where
  "Match_ports H tm tcpHeader =
     (case SourcePort H tcpHeader of
        Inl p \<Rightarrow> Inl p
      | Inr sourcePort \<Rightarrow>
          if sourcePort < sourcePortStart tm \<or> sourcePortEnd tm < sourcePort
          then Inr (False, False)
          else
            (case DestinationPort H tcpHeader of
               Inl p \<Rightarrow> Inl p
             | Inr destinationPort \<Rightarrow>
                 if destinationPort < destinationPortStart tm \<or>
                    destinationPortEnd tm < destinationPort
                 then Inr (False, False)
                 else Inr (True, False)))"

definition Match ::
  "header_pkg \<Rightarrow> TCPMatcher \<Rightarrow> Hook \<Rightarrow> PacketBuffer \<Rightarrow> string \<Rightarrow> panic + bool \<times> bool" where
  "Match H tm hook pkt interfaceName =
     (let netHeader = view_bytes (NetworkHeader pkt) in
      case TransportProtocol H netHeader of
        Inl p \<Rightarrow> Inl p
      | Inr proto \<Rightarrow>
          if proto \<noteq> TCPProtocolNumber H then Inr (False, False)
          else
            (case FragmentOffset H netHeader of
               Inl p \<Rightarrow> Inl p
             | Inr frag \<Rightarrow>
                 if frag \<noteq> 0
                 then (if frag = 1 then Inr (False, True) else Inr (False, False))
                 else
                   (case Match_tcpHeader H hook pkt of
                      Inl p \<Rightarrow> Inl p
                    | Inr None \<Rightarrow> Inr (False, True)
                    | Inr (Some tcpHeader) \<Rightarrow> Match_ports H tm tcpHeader)))"

section \<open>The members of package header\<close>

text \<open>
  Modelled from the spec: the constants and accessors of package \<open>header\<close> are not under
  src/. Section 6 of the spec has the packet view give the network header's declared
  transport protocol and fragment offset and the transport header's ports; section 4.5
  counts the fragment offset in bytes into the original payload. The fields lie where the
  IPv4 and TCP headers have them: the header length in the low four bits of byte 0, in
  words of four bytes; the flags and the 13-bit fragment offset, in units of eight bytes,
  in bytes 6 and 7; the protocol in byte 9; the ports in bytes 0 to 3 of the TCP header,
  all big endian. Both minimum header sizes are 20 bytes and TCP is protocol 6. A read
  is Go's bounds-checked indexing.
\<close>

definition be_uint16 :: "byte list \<Rightarrow> panic + uint16" where
  \<comment> \<open>\<open>binary.BigEndian.Uint16(b)\<close>\<close>
  "be_uint16 b =
     (case go_index b 1 of
        Inl p \<Rightarrow> Inl p
      | Inr b1 \<Rightarrow> Inr (ucast b1 OR push_bit 8 (ucast (b ! 0))))"

definition ipv4_TransportProtocol :: "byte list \<Rightarrow> panic + TransportProtocolNumber" where
  "ipv4_TransportProtocol b =
     (case go_index b 9 of Inl p \<Rightarrow> Inl p | Inr x \<Rightarrow> Inr (ucast x))"

definition ipv4_FragmentOffset :: "byte list \<Rightarrow> panic + uint16" where
  "ipv4_FragmentOffset b =
     (case go_slice_from b 6 of
        Inl p \<Rightarrow> Inl p
      | Inr s \<Rightarrow> (case be_uint16 s of Inl p \<Rightarrow> Inl p | Inr w \<Rightarrow> Inr (push_bit 3 w)))"

definition ipv4_HeaderLength :: "byte list \<Rightarrow> panic + byte" where
  "ipv4_HeaderLength b =
     (case go_index b 0 of Inl p \<Rightarrow> Inl p | Inr x \<Rightarrow> Inr ((x AND 15) * 4))"

definition tcp_SourcePort :: "byte list \<Rightarrow> panic + uint16" where
  "tcp_SourcePort b = be_uint16 b"

definition tcp_DestinationPort :: "byte list \<Rightarrow> panic + uint16" where
  "tcp_DestinationPort b =
     (case go_slice_from b 2 of Inl p \<Rightarrow> Inl p | Inr s \<Rightarrow> be_uint16 s)"

definition header_go :: header_pkg where
  "header_go =
     \<lparr> TCPProtocolNumber = 6,
       IPv4MinimumSize = 20,
       TCPMinimumSize = 20,
       TransportProtocol = ipv4_TransportProtocol,
       FragmentOffset = ipv4_FragmentOffset,
       HeaderLength = ipv4_HeaderLength,
       SourcePort = tcp_SourcePort,
       DestinationPort = tcp_DestinationPort \<rparr>"

section \<open>Notions of the specification\<close>

text \<open>
  The definitions of this section are not in the source: they say in the words of the
  specification what the theorems below compare the source with.
\<close>

definition flags_zero :: "XTTCP \<Rightarrow> bool" where
  \<comment> \<open>the four fields the matcher does not interpret are all zero\<close>
  "flags_zero x \<longleftrightarrow>
     Option x = 0 \<and> FlagMask x = 0 \<and> FlagCompare x = 0 \<and> InverseFlags x = 0"

definition ports_of :: "XTTCP \<Rightarrow> TCPMatcher" where
  \<comment> \<open>the instance holding the four port bounds of a decoded match block\<close>
  "ports_of x =
     \<lparr> sourcePortStart = SourcePortStart x,
       sourcePortEnd = SourcePortEnd x,
       destinationPortStart = DestinationPortStart x,
       destinationPortEnd = DestinationPortEnd x \<rparr>"

definition is_unfragmented_tcp :: "header_pkg \<Rightarrow> PacketBuffer \<Rightarrow> bool" where
  \<comment> \<open>the network header declares TCP and reports the fragment offset 0\<close>
  "is_unfragmented_tcp H pkt \<longleftrightarrow>
     TransportProtocol H (view_bytes (NetworkHeader pkt)) = Inr (TCPProtocolNumber H) \<and>
     FragmentOffset H (view_bytes (NetworkHeader pkt)) = Inr 0"

definition data_region :: "byte list \<Rightarrow> nat \<Rightarrow> nat \<Rightarrow> byte list option" where
  \<comment> \<open>the \<open>n\<close> bytes of the data from offset \<open>off\<close> on, absent if the data ends before\<close>
  "data_region d off n = (if off + n \<le> length d then Some (take n (drop off d)) else None)"

definition claimed_tcpHeader ::
  "header_pkg \<Rightarrow> Hook \<Rightarrow> PacketBuffer \<Rightarrow> panic + byte list option" where
  \<comment> \<open>where the specification has the transport header come from: the parsed one if
      there is one; at pre-routing the region that follows the network header, whose
      length is read from the pulled-up network header; at the other hooks the region at
      offset 0\<close>
  "claimed_tcpHeader H hook pkt =
     (case TransportHeader pkt of
        Some th \<Rightarrow> Inr (Some th)
      | None \<Rightarrow>
          if hook = Prerouting
          then (case PullUp (Data pkt) (IPv4MinimumSize H) of
                  None \<Rightarrow> Inr None
                | Some nh \<Rightarrow>
                    (case HeaderLength H nh of
                       Inl p \<Rightarrow> Inl p
                     | Inr l \<Rightarrow> Inr (data_region (Data pkt) (unat l) (TCPMinimumSize H))))
          else Inr (data_region (Data pkt) 0 (TCPMinimumSize H)))"

definition headers_parsed :: "PacketBuffer \<Rightarrow> bool" where
  \<comment> \<open>the network header is there, at least up to its protocol field, and so are the
      ports of the transport header if the packet has one\<close>
  "headers_parsed pkt \<longleftrightarrow>
     10 \<le> length (view_bytes (NetworkHeader pkt)) \<and>
     (case TransportHeader pkt of None \<Rightarrow> True | Some th \<Rightarrow> 4 \<le> length th)"

section \<open>Example inputs\<close>

text \<open>
  An IPv4 header of 20 bytes declaring TCP, not fragmented, and a TCP header of 20 bytes
  from port 1500 to port 80; the matcher of section 8 of the spec, with the source range
  1000 to 2000 and the destination range 80 to 80.
\<close>

definition example_ipv4 :: "byte list" where
  "example_ipv4 = [0x45, 0, 0, 40, 0, 0, 0x40, 0, 64, 6, 0, 0, 10, 0, 0, 1, 10, 0, 0, 2]"

definition example_tcp :: "byte list" where
  "example_tcp = [0x05, 0xDC, 0, 80, 0, 0, 0, 0, 0, 0, 0, 0, 0x50, 0, 0, 0, 0, 0, 0, 0]"

definition example_matcher :: TCPMatcher where
  "example_matcher =
     \<lparr> sourcePortStart = 1000, sourcePortEnd = 2000,
       destinationPortStart = 80, destinationPortEnd = 80 \<rparr>"

definition example_ipv4_options :: "byte list" where
  \<comment> \<open>a header of 24 bytes: the header length field is 6 and four option bytes follow\<close>
  "example_ipv4_options =
     [0x46, 0, 0, 44, 0, 0, 0x40, 0, 64, 6, 0, 0, 10, 0, 0, 1, 10, 0, 0, 2, 1, 1, 1, 0]"

definition example_fragment :: "byte list" where
  \<comment> \<open>the fragment offset field is 1: the fragment starts 8 bytes into the payload\<close>
  "example_fragment = [0x45, 0, 0, 40, 0, 0, 0, 1, 64, 6, 0, 0, 10, 0, 0, 1, 10, 0, 0, 2]"

lemmas go_defs = header_go_def ipv4_TransportProtocol_def ipv4_FragmentOffset_def
  ipv4_HeaderLength_def tcp_SourcePort_def tcp_DestinationPort_def be_uint16_def
  go_index_def go_slice_from_def view_bytes_def

section \<open>Properties of unmarshal\<close>

lemma Unmarshal_XTTCP_take:
  "SizeOfXTTCP \<le> length buf \<Longrightarrow> Unmarshal_XTTCP (take SizeOfXTTCP buf) = Unmarshal_XTTCP buf"
  by (simp add: Unmarshal_XTTCP_def SizeOfXTTCP_def)

text \<open>
  Claim C6. On a buffer of at least \<open>SizeOfXTTCP\<close> bytes, whatever the header filter,
  \<open>unmarshal\<close> fails with the unsupported-flags error as soon as one of the option,
  flag-mask, flag-compare and inverse-flags bytes decoded from the buffer is not zero;
  no matcher is returned.
\<close>

theorem unmarshal_rejects_flags:
  assumes "SizeOfXTTCP \<le> length buf"
    and "Option (Unmarshal_XTTCP buf) \<noteq> 0 \<or> FlagMask (Unmarshal_XTTCP buf) \<noteq> 0 \<or>
         FlagCompare (Unmarshal_XTTCP buf) \<noteq> 0 \<or> InverseFlags (Unmarshal_XTTCP buf) \<noteq> 0"
  shows "unmarshal H buf ipfilter = Inl UnsupportedFlags"
  using assms by (auto simp add: unmarshal_def Unmarshal_XTTCP_take Let_def)

theorem unmarshal_rejects_flags_witness:
  "SizeOfXTTCP \<le> length [232, 3, 208, 7, 80, 0, 80, 0, 0, 4, 0, 0 :: byte] \<and>
   FlagMask (Unmarshal_XTTCP [232, 3, 208, 7, 80, 0, 80, 0, 0, 4, 0, 0]) \<noteq> 0 \<and>
   unmarshal header_go [232, 3, 208, 7, 80, 0, 80, 0, 0, 4, 0, 0] \<lparr>Protocol = 6\<rparr>
     = Inl UnsupportedFlags"
  using unmarshal_rejects_flags
          [of "[232, 3, 208, 7, 80, 0, 80, 0, 0, 4, 0, 0]" header_go "\<lparr>Protocol = 6\<rparr>"]
  by (simp add: SizeOfXTTCP_def Unmarshal_XTTCP_def)

text \<open>
  Claim C7. A buffer shorter than \<open>SizeOfXTTCP\<close> is refused with the size error. A
  buffer of at least that size whose decoded flag fields are zero, with a filter for TCP,
  is accepted, and the result is that of the first \<open>SizeOfXTTCP\<close> bytes alone: the
  bytes after them are ignored.
\<close>

theorem unmarshal_size:
  "(length buf < SizeOfXTTCP \<longrightarrow>
      unmarshal H buf ipfilter = Inl (InsufficientSize (length buf))) \<and>
   (SizeOfXTTCP \<le> length buf \<and> flags_zero (Unmarshal_XTTCP buf) \<and>
    Protocol ipfilter = TCPProtocolNumber H \<longrightarrow>
      unmarshal H buf ipfilter = Inr (ports_of (Unmarshal_XTTCP buf)) \<and>
      unmarshal H buf ipfilter = unmarshal H (take SizeOfXTTCP buf) ipfilter)"
  by (auto simp add: unmarshal_def Unmarshal_XTTCP_take Let_def flags_zero_def ports_of_def)

theorem unmarshal_size_witness:
  "length [232, 3 :: byte] < SizeOfXTTCP \<and>
   unmarshal header_go [232, 3] \<lparr>Protocol = 6\<rparr> = Inl (InsufficientSize 2) \<and>
   SizeOfXTTCP \<le> length [232, 3, 208, 7, 80, 0, 80, 0, 0, 0, 0, 0, 9, 9, 9, 9 :: byte] \<and>
   flags_zero (Unmarshal_XTTCP [232, 3, 208, 7, 80, 0, 80, 0, 0, 0, 0, 0, 9, 9, 9, 9]) \<and>
   Protocol \<lparr>Protocol = 6\<rparr> = TCPProtocolNumber header_go \<and>
   unmarshal header_go [232, 3, 208, 7, 80, 0, 80, 0, 0, 0, 0, 0, 9, 9, 9, 9] \<lparr>Protocol = 6\<rparr>
     = Inr example_matcher \<and>
   unmarshal header_go [232, 3, 208, 7, 80, 0, 80, 0, 0, 0, 0, 0, 9, 9, 9, 9] \<lparr>Protocol = 6\<rparr>
     = unmarshal header_go [232, 3, 208, 7, 80, 0, 80, 0, 0, 0, 0, 0] \<lparr>Protocol = 6\<rparr>"
  using unmarshal_size [of "[232, 3]" header_go "\<lparr>Protocol = 6\<rparr>"]
        unmarshal_size [of "[232, 3, 208, 7, 80, 0, 80, 0, 0, 0, 0, 0, 9, 9, 9, 9]" header_go
                           "\<lparr>Protocol = 6\<rparr>"]
  by (auto simp add: SizeOfXTTCP_def Unmarshal_XTTCP_def flags_zero_def ports_of_def header_go_def
                le_uint16_def example_matcher_def)

text \<open>
  Claim C8. On a buffer of at least \<open>SizeOfXTTCP\<close> bytes whose decoded flag fields are
  zero, \<open>unmarshal\<close> fails with the protocol-mismatch error exactly when the filter's
  protocol is not the TCP protocol number, and otherwise returns the instance that holds
  the four port bounds decoded from the buffer.
\<close>

theorem unmarshal_protocol:
  assumes "SizeOfXTTCP \<le> length buf" and "flags_zero (Unmarshal_XTTCP buf)"
  shows "(unmarshal H buf ipfilter = Inl ProtocolMismatch \<longleftrightarrow>
            Protocol ipfilter \<noteq> TCPProtocolNumber H) \<and>
         (Protocol ipfilter = TCPProtocolNumber H \<longrightarrow>
            unmarshal H buf ipfilter = Inr (ports_of (Unmarshal_XTTCP buf)))"
  using assms
  by (auto simp add: unmarshal_def Unmarshal_XTTCP_take Let_def flags_zero_def ports_of_def)

theorem unmarshal_protocol_witness:
  "SizeOfXTTCP \<le> length [232, 3, 208, 7, 80, 0, 80, 0, 0, 0, 0, 0 :: byte] \<and>
   flags_zero (Unmarshal_XTTCP [232, 3, 208, 7, 80, 0, 80, 0, 0, 0, 0, 0]) \<and>
   unmarshal header_go [232, 3, 208, 7, 80, 0, 80, 0, 0, 0, 0, 0] \<lparr>Protocol = 17\<rparr>
     = Inl ProtocolMismatch \<and>
   unmarshal header_go [232, 3, 208, 7, 80, 0, 80, 0, 0, 0, 0, 0] \<lparr>Protocol = 6\<rparr>
     = Inr example_matcher"
  using unmarshal_protocol [of "[232, 3, 208, 7, 80, 0, 80, 0, 0, 0, 0, 0]" header_go
                               "\<lparr>Protocol = 17\<rparr>"]
        unmarshal_protocol [of "[232, 3, 208, 7, 80, 0, 80, 0, 0, 0, 0, 0]" header_go
                               "\<lparr>Protocol = 6\<rparr>"]
  by (simp add: SizeOfXTTCP_def Unmarshal_XTTCP_def flags_zero_def ports_of_def header_go_def
                le_uint16_def example_matcher_def)

section \<open>marshal followed by unmarshal\<close>

lemma le_uint16_bytes: "le_uint16 (ucast w) (ucast (drop_bit 8 w)) = w"
  unfolding le_uint16_def
  by (rule bit_word_eqI) (auto simp add: bit_simps)

lemma Unmarshal_Marshal_XTTCP:
  "Unmarshal_XTTCP (Marshal_XTTCP [] x @ tail) = x"
  by (simp add: Unmarshal_XTTCP_def Marshal_XTTCP_def le_bytes16_def le_uint16_bytes)

lemma marshal_payload:
  "drop SizeOfXTEntryMatch (marshal m) =
     Marshal_XTTCP []
       \<lparr> SourcePortStart = sourcePortStart m, SourcePortEnd = sourcePortEnd m,
         DestinationPortStart = destinationPortStart m,
         DestinationPortEnd = destinationPortEnd m,
         Option = 0, FlagMask = 0, FlagCompare = 0, InverseFlags = 0 \<rparr> @ replicate 4 0"
  by (simp add: marshal_def marshalEntryMatch_def Marshal_XTTCP_def le_bytes16_def
                name_bytes_def matcherNameTCP_def AlignUp_def SizeOfXTEntryMatch_def Let_def)

text \<open>
  Claim C2. The bytes of \<open>marshal\<close> begin with the generic match header of
  \<open>SizeOfXTEntryMatch\<close> bytes. For every matcher and every filter for TCP, \<open>unmarshal\<close>
  of what follows that header, the match block and its padding, returns the matcher
  itself, with no error.
\<close>

theorem unmarshal_marshal_payload:
  assumes "Protocol ipfilter = TCPProtocolNumber H"
  shows "unmarshal H (drop SizeOfXTEntryMatch (marshal m)) ipfilter = Inr m"
proof -
  have len: "SizeOfXTTCP \<le> length (drop SizeOfXTEntryMatch (marshal m))"
    by (simp add: marshal_payload Marshal_XTTCP_def le_bytes16_def SizeOfXTTCP_def)
  have dec: "Unmarshal_XTTCP (take SizeOfXTTCP (drop SizeOfXTEntryMatch (marshal m))) =
      \<lparr> SourcePortStart = sourcePortStart m, SourcePortEnd = sourcePortEnd m,
        DestinationPortStart = destinationPortStart m,
        DestinationPortEnd = destinationPortEnd m,
        Option = 0, FlagMask = 0, FlagCompare = 0, InverseFlags = 0 \<rparr>"
    unfolding Unmarshal_XTTCP_take [OF len]
    by (simp only: marshal_payload Unmarshal_Marshal_XTTCP)
  from len have nlt: "\<not> length (drop SizeOfXTEntryMatch (marshal m)) < SizeOfXTTCP"
    by simp
  show ?thesis
    unfolding unmarshal_def Let_def dec if_not_P [OF nlt]
    using assms by simp
qed

theorem unmarshal_marshal_payload_witness:
  "Protocol \<lparr>Protocol = 6\<rparr> = TCPProtocolNumber header_go \<and>
   unmarshal header_go (drop SizeOfXTEntryMatch (marshal example_matcher)) \<lparr>Protocol = 6\<rparr>
     = Inr example_matcher"
  using unmarshal_marshal_payload [of "\<lparr>Protocol = 6\<rparr>" header_go example_matcher]
  by (simp add: header_go_def)

text \<open>
  On all the bytes of \<open>marshal\<close>, \<open>unmarshal\<close> decodes the beginning of the generic
  match header, the total length 48 and the name, as if they were port bounds.
\<close>

theorem unmarshal_marshal_counterexample:
  "unmarshal header_go (marshal example_matcher) \<lparr>Protocol = 6\<rparr>
     = Inr \<lparr> sourcePortStart = 48, sourcePortEnd = 25460,
             destinationPortStart = 112, destinationPortEnd = 0 \<rparr> \<and>
   unmarshal header_go (marshal example_matcher) \<lparr>Protocol = 6\<rparr> \<noteq> Inr example_matcher"
  by (simp add: unmarshal_def marshal_def marshalEntryMatch_def Marshal_XTTCP_def le_bytes16_def
                name_bytes_def matcherNameTCP_def AlignUp_def SizeOfXTEntryMatch_def Let_def
                SizeOfXTTCP_def Unmarshal_XTTCP_def le_uint16_def header_go_def
                example_matcher_def)

section \<open>Properties of Match\<close>

lemma Match_unfragmented:
  "is_unfragmented_tcp H pkt \<Longrightarrow>
   Match H tm hook pkt ifn =
     (case Match_tcpHeader H hook pkt of
        Inl p \<Rightarrow> Inl p
      | Inr None \<Rightarrow> Inr (False, True)
      | Inr (Some tcpHeader) \<Rightarrow> Match_ports H tm tcpHeader)"
  by (simp add: Match_def is_unfragmented_tcp_def)

lemma Match_ports_readable:
  "SourcePort H th = Inr sp \<Longrightarrow> DestinationPort H th = Inr dp \<Longrightarrow>
   Match_ports H tm th =
     Inr (sourcePortStart tm \<le> sp \<and> sp \<le> sourcePortEnd tm \<and>
          destinationPortStart tm \<le> dp \<and> dp \<le> destinationPortEnd tm, False)"
  by (auto simp add: Match_ports_def not_less)

text \<open>
  Claim C1. For an unfragmented TCP packet whose TCP header \<open>th\<close> is available, with
  source port \<open>sp\<close> and destination port \<open>dp\<close>, \<open>Match\<close> returns matched exactly when
  \<open>sp\<close> lies between \<open>sourcePortStart\<close> and \<open>sourcePortEnd\<close> and \<open>dp\<close> between
  \<open>destinationPortStart\<close> and \<open>destinationPortEnd\<close>, both ends included, and never
  hotdrop. Hence a matcher with a range whose start is above its end matches no packet.
\<close>

theorem Match_ports_inclusive:
  assumes "is_unfragmented_tcp H pkt"
    and "Match_tcpHeader H hook pkt = Inr (Some th)"
    and "SourcePort H th = Inr sp" and "DestinationPort H th = Inr dp"
  shows "Match H tm hook pkt ifn =
           Inr (sourcePortStart tm \<le> sp \<and> sp \<le> sourcePortEnd tm \<and>
                destinationPortStart tm \<le> dp \<and> dp \<le> destinationPortEnd tm, False) \<and>
         (sourcePortEnd tm < sourcePortStart tm \<or> destinationPortEnd tm < destinationPortStart tm
            \<longrightarrow> Match H tm hook pkt ifn = Inr (False, False))"
proof -
  have m: "Match H tm hook pkt ifn = Match_ports H tm th"
    using assms(1,2) by (simp add: Match_unfragmented)
  have v: "Match_ports H tm th =
     Inr (sourcePortStart tm \<le> sp \<and> sp \<le> sourcePortEnd tm \<and>
          destinationPortStart tm \<le> dp \<and> dp \<le> destinationPortEnd tm, False)"
    using assms(3,4) by (rule Match_ports_readable)
  show ?thesis unfolding m v by auto
qed

text \<open>
  The example of section 8 of the spec: ports 1500 and 80 match the ranges 1000 to 2000
  and 80 to 80, and no longer do once the source range ends at 999, below its start.
\<close>

theorem Match_ports_inclusive_witness:
  "is_unfragmented_tcp header_go
     \<lparr>Data = [], NetworkHeader = Some example_ipv4, TransportHeader = Some example_tcp\<rparr> \<and>
   Match_tcpHeader header_go Input
     \<lparr>Data = [], NetworkHeader = Some example_ipv4, TransportHeader = Some example_tcp\<rparr>
     = Inr (Some example_tcp) \<and>
   SourcePort header_go example_tcp = Inr 1500 \<and>
   DestinationPort header_go example_tcp = Inr 80 \<and>
   Match header_go example_matcher Input
     \<lparr>Data = [], NetworkHeader = Some example_ipv4, TransportHeader = Some example_tcp\<rparr>
     ''eth0'' = Inr (True, False) \<and>
   Match header_go (example_matcher \<lparr>sourcePortEnd := 999\<rparr>) Input
     \<lparr>Data = [], NetworkHeader = Some example_ipv4, TransportHeader = Some example_tcp\<rparr>
     ''eth0'' = Inr (False, False)"
  using Match_ports_inclusive
          [of header_go
              "\<lparr>Data = [], NetworkHeader = Some example_ipv4, TransportHeader = Some example_tcp\<rparr>"
              Input example_tcp 1500 80 example_matcher "''eth0''"]
        Match_ports_inclusive
          [of header_go
              "\<lparr>Data = [], NetworkHeader = Some example_ipv4, TransportHeader = Some example_tcp\<rparr>"
              Input example_tcp 1500 80 "example_matcher \<lparr>sourcePortEnd := 999\<rparr>" "''eth0''"]
  by (simp add: is_unfragmented_tcp_def Match_tcpHeader_def go_defs
                example_ipv4_def example_tcp_def example_matcher_def)

text \<open>
  The package reports fragment offsets in bytes, multiples of eight, and so never reports
  the offset 1 that \<open>Match\<close> compares with: no fragment is dropped.
\<close>

lemma push_bit_3_not_1: "push_bit 3 (w :: uint16) \<noteq> 1"
proof
  assume "push_bit 3 w = 1"
  then have "bit (push_bit 3 w) 0 = bit (1 :: uint16) 0" by simp
  then show False by (simp add: bit_push_bit_iff)
qed

lemma ipv4_FragmentOffset_not_1: "ipv4_FragmentOffset b \<noteq> Inr 1"
  by (auto simp add: ipv4_FragmentOffset_def push_bit_3_not_1 split: sum.splits)

lemma Match_go_fragment_never_hotdrops:
  assumes "TransportProtocol header_go (view_bytes (NetworkHeader pkt))
             = Inr (TCPProtocolNumber header_go)"
    and "FragmentOffset header_go (view_bytes (NetworkHeader pkt)) = Inr frag"
    and "frag \<noteq> 0"
  shows "Match header_go tm hook pkt ifn = Inr (False, False)"
proof -
  have "ipv4_FragmentOffset (view_bytes (NetworkHeader pkt)) = Inr frag"
    using assms(2) by (simp add: header_go_def)
  then have "frag \<noteq> 1"
    using ipv4_FragmentOffset_not_1 [of "view_bytes (NetworkHeader pkt)"] by auto
  then show ?thesis
    using assms by (simp add: Match_def)
qed

text \<open>
  Claim C3. A TCP packet that is the smallest continuation fragment there is, its offset
  field 1, eight bytes into the payload, is not dropped: the network header reports the
  offset 8, \<open>Match\<close> compares it with 1 and returns no match and no hotdrop, as it does for
  every other fragment.
\<close>

theorem Match_minimal_fragment_not_hotdropped:
  "TransportProtocol header_go (view_bytes (Some example_fragment))
     = Inr (TCPProtocolNumber header_go) \<and>
   FragmentOffset header_go (view_bytes (Some example_fragment)) = Inr 8 \<and>
   Match header_go example_matcher Input
     \<lparr>Data = example_tcp, NetworkHeader = Some example_fragment, TransportHeader = None\<rparr>
     ''eth0'' = Inr (False, False)"
  by (simp add: Match_def go_defs example_fragment_def)

text \<open>
  Claim C4. For an unfragmented TCP packet without a parsed transport header, \<open>Match\<close>
  returns no match and hotdrop when a pull-up it needs returns absence: that of the
  network header at pre-routing, that of the network and transport headers together at
  pre-routing, or that of the transport header at another hook.
\<close>

theorem Match_short_data_hotdrop:
  assumes "is_unfragmented_tcp H pkt"
    and "TransportHeader pkt = None"
    and "(hook = Prerouting \<and> PullUp (Data pkt) (IPv4MinimumSize H) = None) \<or>
         (hook = Prerouting \<and>
            (\<exists>nh l. PullUp (Data pkt) (IPv4MinimumSize H) = Some nh \<and>
                    HeaderLength H nh = Inr l \<and>
                    PullUp (Data pkt) (unat l + TCPMinimumSize H) = None)) \<or>
         (hook \<noteq> Prerouting \<and> PullUp (Data pkt) (TCPMinimumSize H) = None)"
  shows "Match H tm hook pkt ifn = Inr (False, True)"
proof -
  have "Match_tcpHeader H hook pkt = Inr None"
    using assms(2,3) by (auto simp add: Match_tcpHeader_def)
  then show ?thesis using assms(1) by (simp add: Match_unfragmented)
qed

text \<open>
  One byte of data where the TCP header should be: after a parsed network header at the
  input hook, and after the 20 bytes of the network header at pre-routing.
\<close>

theorem Match_short_data_hotdrop_witness:
  "is_unfragmented_tcp header_go
     \<lparr>Data = [5], NetworkHeader = Some example_ipv4, TransportHeader = None\<rparr> \<and>
   Input \<noteq> Prerouting \<and>
   PullUp [5] (TCPMinimumSize header_go) = None \<and>
   Match header_go example_matcher Input
     \<lparr>Data = [5], NetworkHeader = Some example_ipv4, TransportHeader = None\<rparr> ''eth0''
     = Inr (False, True) \<and>
   is_unfragmented_tcp header_go
     \<lparr>Data = example_ipv4 @ [5], NetworkHeader = Some example_ipv4, TransportHeader = None\<rparr> \<and>
   PullUp (example_ipv4 @ [5]) (IPv4MinimumSize header_go) = Some example_ipv4 \<and>
   HeaderLength header_go example_ipv4 = Inr 20 \<and>
   PullUp (example_ipv4 @ [5]) (unat (20 :: byte) + TCPMinimumSize header_go) = None \<and>
   Match header_go example_matcher Prerouting
     \<lparr>Data = example_ipv4 @ [5], NetworkHeader = Some example_ipv4, TransportHeader = None\<rparr>
     ''eth0'' = Inr (False, True)"
  using Match_short_data_hotdrop
          [of header_go
              "\<lparr>Data = [5], NetworkHeader = Some example_ipv4, TransportHeader = None\<rparr>"
              Input example_matcher "''eth0''"]
        Match_short_data_hotdrop
          [of header_go
              "\<lparr>Data = example_ipv4 @ [5], NetworkHeader = Some example_ipv4,
                TransportHeader = None\<rparr>"
              Prerouting example_matcher "''eth0''"]
  by (simp add: is_unfragmented_tcp_def PullUp_def go_defs example_ipv4_def)

lemma PullUp_slice:
  "(case PullUp d (len + n) of
      None \<Rightarrow> Inr None
    | Some hdr \<Rightarrow> (case go_slice_from hdr len of Inl p \<Rightarrow> Inl p | Inr t \<Rightarrow> Inr (Some t)))
   = Inr (data_region d len n)"
  by (simp add: PullUp_def go_slice_from_def data_region_def drop_take)

lemma Match_tcpHeader_claimed:
  "Match_tcpHeader H hook pkt = claimed_tcpHeader H hook pkt"
  using PullUp_slice [where d="Data pkt" and len=0 and n="TCPMinimumSize H", simplified]
  by (auto simp add: Match_tcpHeader_def claimed_tcpHeader_def PullUp_slice
           split: option.splits sum.splits)

text \<open>
  Claim C5. On an unfragmented TCP packet, \<open>Match\<close> applies its port checks to the
  transport header the packet already has if it has one; otherwise, at pre-routing, to
  the region of the data that follows the network header, whose length it reads from the
  network header it pulls up first; otherwise, at any other hook, to the region at
  offset 0 of the data. The packet is dropped where that region is absent.
\<close>

theorem Match_transport_header_source:
  assumes "is_unfragmented_tcp H pkt"
  shows "Match H tm hook pkt ifn =
           (case claimed_tcpHeader H hook pkt of
              Inl p \<Rightarrow> Inl p
            | Inr None \<Rightarrow> Inr (False, True)
            | Inr (Some th) \<Rightarrow> Match_ports H tm th)"
  using assms by (simp add: Match_unfragmented Match_tcpHeader_claimed)

theorem Match_transport_header_source_witness:
  "is_unfragmented_tcp header_go
     \<lparr>Data = example_ipv4_options @ example_tcp, NetworkHeader = Some example_ipv4_options,
       TransportHeader = None\<rparr> \<and>
   claimed_tcpHeader header_go Prerouting
     \<lparr>Data = example_ipv4_options @ example_tcp, NetworkHeader = Some example_ipv4_options,
       TransportHeader = None\<rparr> = Inr (Some example_tcp) \<and>
   Match header_go example_matcher Prerouting
     \<lparr>Data = example_ipv4_options @ example_tcp, NetworkHeader = Some example_ipv4_options,
       TransportHeader = None\<rparr> ''eth0'' = Inr (True, False)"
  using Match_transport_header_source
          [of header_go
              "\<lparr>Data = example_ipv4_options @ example_tcp,
                NetworkHeader = Some example_ipv4_options, TransportHeader = None\<rparr>"
              example_matcher Prerouting "''eth0''"]
  by (simp add: is_unfragmented_tcp_def claimed_tcpHeader_def PullUp_def data_region_def
                Match_ports_def go_defs example_ipv4_options_def example_tcp_def
                example_matcher_def)

text \<open>
  At pre-routing, on a packet whose network header is not parsed yet and whose data holds
  a full IPv4 and TCP header, the first read of the network header, that of its protocol
  byte, is out of range; and so is the read of the ports of a transport header that is
  there but empty.
\<close>

theorem Match_unparsed_network_header_panics:
  "Match header_go example_matcher Prerouting
     \<lparr>Data = example_ipv4 @ example_tcp, NetworkHeader = None, TransportHeader = None\<rparr>
     ''eth0'' = Inl IndexOutOfRange \<and>
   Match header_go example_matcher Input
     \<lparr>Data = example_tcp, NetworkHeader = Some example_ipv4, TransportHeader = Some []\<rparr>
     ''eth0'' = Inl IndexOutOfRange"
  by (simp add: Match_def Match_tcpHeader_def Match_ports_def go_defs example_ipv4_def)

lemma be_uint16_total: "2 \<le> length b \<Longrightarrow> \<exists>w. be_uint16 b = Inr w"
  by (simp add: be_uint16_def go_index_def)

lemma go_ports_total:
  assumes "4 \<le> length th"
  shows "\<exists>sp dp. SourcePort header_go th = Inr sp \<and> DestinationPort header_go th = Inr dp"
proof -
  from assms have "2 \<le> length th" and "2 \<le> length (drop 2 th)" by simp_all
  then obtain sp dp where "be_uint16 th = Inr sp" and "be_uint16 (drop 2 th) = Inr dp"
    using be_uint16_total by blast
  then show ?thesis
    using assms
    by (simp add: header_go_def tcp_SourcePort_def tcp_DestinationPort_def go_slice_from_def)
qed

lemma Match_ports_go_total:
  assumes "4 \<le> length th"
  shows "\<exists>r. Match_ports header_go tm th = Inr r"
  using go_ports_total [OF assms] by (auto simp add: Match_ports_readable)

lemma Match_tcpHeader_go_total:
  assumes "case TransportHeader pkt of None \<Rightarrow> True | Some th \<Rightarrow> 4 \<le> length th"
  shows "Match_tcpHeader header_go hook pkt = Inr None \<or>
         (\<exists>th. Match_tcpHeader header_go hook pkt = Inr (Some th) \<and> 4 \<le> length th)"
  using assms
  by (auto simp add: Match_tcpHeader_claimed claimed_tcpHeader_def data_region_def PullUp_def
                     header_go_def ipv4_HeaderLength_def go_index_def
           split: option.splits)

lemma go_network_fields_total:
  assumes "10 \<le> length nh"
  shows "\<exists>proto frag. TransportProtocol header_go nh = Inr proto \<and>
                       FragmentOffset header_go nh = Inr frag"
proof -
  from assms have "2 \<le> length (drop 6 nh)" by simp
  then obtain w where "be_uint16 (drop 6 nh) = Inr w"
    using be_uint16_total by blast
  then show ?thesis
    using assms
    by (simp add: header_go_def ipv4_TransportProtocol_def ipv4_FragmentOffset_def
                  go_index_def go_slice_from_def)
qed

text \<open>
  Claim C9. \<open>Match\<close> returns a pair, with no read out of range, for every matcher, hook
  and interface name and every packet whose network header is present with at least the
  ten bytes up to its protocol field, as every parsed IPv4 header is, and whose transport
  header, if the packet has one, holds at least the four bytes of the ports.
\<close>

theorem Match_total_on_parsed_headers:
  assumes "headers_parsed pkt"
  shows "\<exists>r. Match header_go tm hook pkt ifn = Inr r"
proof -
  from assms have nh: "10 \<le> length (view_bytes (NetworkHeader pkt))"
    and th: "case TransportHeader pkt of None \<Rightarrow> True | Some th \<Rightarrow> 4 \<le> length th"
    by (simp_all add: headers_parsed_def)
  obtain proto frag where
    p: "TransportProtocol header_go (view_bytes (NetworkHeader pkt)) = Inr proto" and
    f: "FragmentOffset header_go (view_bytes (NetworkHeader pkt)) = Inr frag"
    using go_network_fields_total [OF nh] by blast
  show ?thesis
    using Match_tcpHeader_go_total [OF th, of hook] Match_ports_go_total [of _ tm]
    by (auto simp add: Match_def p f)
qed

theorem Match_total_on_parsed_headers_witness:
  "headers_parsed
     \<lparr>Data = example_ipv4 @ example_tcp, NetworkHeader = Some example_ipv4,
       TransportHeader = None\<rparr> \<and>
   (\<exists>r. Match header_go example_matcher Prerouting
          \<lparr>Data = example_ipv4 @ example_tcp, NetworkHeader = Some example_ipv4,
            TransportHeader = None\<rparr> ''eth0'' = Inr r)"
  using Match_total_on_parsed_headers
          [of "\<lparr>Data = example_ipv4 @ example_tcp, NetworkHeader = Some example_ipv4,
                TransportHeader = None\<rparr>" example_matcher Prerouting "''eth0''"]
  by (simp add: headers_parsed_def view_bytes_def example_ipv4_def)

text \<open>
  Claim C10. \<open>Match\<close> never returns matched together with hotdrop, whatever the hook, the
  packet and the interface name.
\<close>

theorem Match_never_matches_and_hotdrops:
  "Match H tm hook pkt ifn \<noteq> Inr (True, True)"
  by (auto simp add: Match_def Match_ports_def Let_def split: sum.splits option.splits if_splits)

end
